theory Spec2Isabelle
  imports Complex_Main "HOL-Library.Sublist" "HOL-Library.Multiset"
begin

section \<open>Data model\<close>

text \<open>
  The booking status is the SQL enum \<^verbatim>\<open>booking_status\<close> and the TypeScript union
  \<^verbatim>\<open>'pending' | 'confirmed' | 'cancelled' | 'completed'\<close>.
\<close>

datatype booking_status = Pending | Confirmed | Cancelled | Completed

text \<open>
  A JavaScript \<^verbatim>\<open>Date\<close>, as far as the screens observe one: its time value
  (milliseconds, what \<^verbatim>\<open>>=\<close> compares), \<^verbatim>\<open>getFullYear()\<close> and
  \<^verbatim>\<open>getMonth()\<close> (0 to 11).
\<close>

record js_date =
  getTime :: int
  getFullYear :: int
  getMonth :: int

text \<open>
  A row of the \<^verbatim>\<open>bookings\<close> table as the screens read it. \<open>event_date\<close> holds the
  value of \<^verbatim>\<open>new Date(booking.event_date)\<close>; \<open>services_title\<close> is
  \<^verbatim>\<open>booking.services?.title\<close> (\<open>None\<close> when the joined service is absent);
  \<^verbatim>\<open>number\<close> prices are exact rationals.
\<close>

record booking =
  booking_id :: string
  professional_id :: string
  event_date :: js_date
  status :: booking_status
  total_price :: rat
  services_title :: "string option"
  created_at :: int
  updated_at :: int

text \<open>
  A row of the \<^verbatim>\<open>services\<close> table as the search screen reads it (the interface
  \<^verbatim>\<open>Service\<close>), with the joined \<^verbatim>\<open>profiles\<close> of its owner when present.
\<close>

record profile_join =
  full_name :: string

record Service =
  service_id :: string
  title :: string
  description :: string
  price_from :: rat
  location :: string
  profiles :: "profile_join option"

section \<open>Statistics aggregator (\<^verbatim>\<open>loadAnalyticsData\<close>)\<close>

text \<open>
  The argument is the \<^verbatim>\<open>data\<close> of the query (named \<^verbatim>\<open>bookings\<close> in the source),
  which may be \<^verbatim>\<open>null\<close>
  (\<open>None\<close>): \<^verbatim>\<open>bookings?.length || 0\<close> and
  \<^verbatim>\<open>bookings?.filter(b => b.status === 'completed') || []\<close>.
\<close>

definition totalBookings :: "booking list option \<Rightarrow> nat" where
  "totalBookings data = (case data of None \<Rightarrow> 0 | Some bs \<Rightarrow> length bs)"

definition completedBookings :: "booking list option \<Rightarrow> booking list" where
  "completedBookings data =
     (case data of None \<Rightarrow> [] | Some bs \<Rightarrow> filter (\<lambda>b. status b = Completed) bs)"

text \<open>\<^verbatim>\<open>completedBookings.reduce((sum, b) => sum + b.total_price, 0)\<close>\<close>

definition totalRevenue :: "booking list option \<Rightarrow> rat" where
  "totalRevenue data = foldl (\<lambda>sum b. sum + total_price b) 0 (completedBookings data)"

text \<open>\<^verbatim>\<open>totalBookings > 0 ? (completedBookings.length / totalBookings) * 100 : 0\<close>\<close>

definition completionRate :: "booking list option \<Rightarrow> rat" where
  "completionRate data =
     (if totalBookings data > 0
      then (of_nat (length (completedBookings data)) / of_nat (totalBookings data)) * 100
      else 0)"




text \<open>
  The ranking of services. \<^verbatim>\<open>serviceStats\<close> is a plain object used as a dictionary:
  its own properties are kept here in insertion order. The title of a booking is
  \<^verbatim>\<open>booking.services?.title || 'Servi\<ccedil>o de Churrasco'\<close> (the empty string is
  falsy, so it takes the default too); strings are lists of 8-bit code units.
\<close>

record service_stat =
  bookings :: nat
  revenue :: rat

record top_service = service_stat +
  title :: string

definition default_title :: string where
  "default_title = ''Servi'' @ [CHR 0xE7] @ ''o de Churrasco''"

definition serviceTitle :: "booking \<Rightarrow> string" where
  "serviceTitle booking =
     (case services_title booking of
        None \<Rightarrow> default_title
      | Some t \<Rightarrow> if t = [] then default_title else t)"

text \<open>
  A property read \<^verbatim>\<open>serviceStats[serviceTitle]\<close> on the object literal \<^verbatim>\<open>{}\<close> finds
  an own property, or else a property inherited from \<^verbatim>\<open>Object.prototype\<close> (a function,
  or the prototype itself for \<^verbatim>\<open>__proto__\<close>: all truthy), or else \<^verbatim>\<open>undefined\<close>.
\<close>

definition Object_prototype_keys :: "string list" where
  "Object_prototype_keys =
     [''constructor'', ''__defineGetter__'', ''__defineSetter__'', ''hasOwnProperty'',
      ''__lookupGetter__'', ''__lookupSetter__'', ''isPrototypeOf'', ''propertyIsEnumerable'',
      ''toString'', ''valueOf'', ''__proto__'', ''toLocaleString'']"

datatype property_value = Undefined | Inherited | Own service_stat

definition get_property :: "(string \<times> service_stat) list \<Rightarrow> string \<Rightarrow> property_value" where
  "get_property obj key =
     (case map_of obj key of
        Some v \<Rightarrow> Own v
      | None \<Rightarrow> if key \<in> set Object_prototype_keys then Inherited else Undefined)"

text \<open>
  One round of the \<^verbatim>\<open>forEach\<close>:
  \<^verbatim>\<open>if (!serviceStats[serviceTitle]) serviceStats[serviceTitle] = { bookings: 0, revenue: 0 }\<close>,
  then \<^verbatim>\<open>serviceStats[serviceTitle].bookings++\<close> and
  \<^verbatim>\<open>serviceStats[serviceTitle].revenue += booking.total_price\<close>. When the read yields an
  inherited value, the two writes go to that inherited object and \<^verbatim>\<open>serviceStats\<close>
  keeps its own properties as they were.
\<close>

definition serviceStats_step ::
    "(string \<times> service_stat) list \<Rightarrow> booking \<Rightarrow> (string \<times> service_stat) list" where
  "serviceStats_step serviceStats booking =
     (let key = serviceTitle booking;
          created = (if get_property serviceStats key = Undefined
                     then serviceStats @ [(key, \<lparr>bookings = 0, revenue = 0\<rparr>)]
                     else serviceStats)
      in case get_property created key of
           Own v \<Rightarrow>
             map (\<lambda>(k, v). if k = key
                    then (k, v\<lparr>bookings := bookings v + 1,
                               revenue := revenue v + total_price booking\<rparr>)
                    else (k, v)) created
         | Inherited \<Rightarrow> created
         | Undefined \<Rightarrow> created)"

definition serviceStats :: "booking list option \<Rightarrow> (string \<times> service_stat) list" where
  "serviceStats data = foldl serviceStats_step [] (completedBookings data)"

text \<open>
  \<^verbatim>\<open>Object.entries\<close> lists the own properties: first the keys that are array indices
  (canonical decimal numerals below \<open>2^32 - 1 = 4294967295\<close>) in ascending numeric order, then the
  other keys in insertion order.
\<close>

definition is_digit :: "char \<Rightarrow> bool" where
  "is_digit c = (48 \<le> (of_char c :: int) \<and> (of_char c :: int) \<le> 57)"

definition numeric_value :: "string \<Rightarrow> int" where
  "numeric_value key = foldl (\<lambda>n c. 10 * n + ((of_char c :: int) - 48)) 0 key"

definition is_array_index :: "string \<Rightarrow> bool" where
  "is_array_index key =
     (key \<noteq> [] \<and> list_all is_digit key \<and> (hd key = CHR ''0'' \<longrightarrow> key = ''0'') \<and>
      length key \<le> 10 \<and> numeric_value key < 4294967295)"

definition Object_entries :: "(string \<times> service_stat) list \<Rightarrow> (string \<times> service_stat) list" where
  "Object_entries obj =
     sort_key (\<lambda>(k, v). numeric_value k) (filter (\<lambda>(k, v). is_array_index k) obj) @
     filter (\<lambda>(k, v). \<not> is_array_index k) obj"

text \<open>
  \<^verbatim>\<open>Object.entries(serviceStats).map(([title, stats]) => ({ title, ...stats }))
  .sort((a, b) => b.revenue - a.revenue).slice(0, 5)\<close>; the sort is stable.
\<close>

definition topServices :: "booking list option \<Rightarrow> top_service list" where
  "topServices data =
     take 5 (sort_key (\<lambda>a. - revenue a)
       (map (\<lambda>(title, stats). \<lparr>bookings = bookings stats, revenue = revenue stats, title = title\<rparr>)
          (Object_entries (serviceStats data))))"

text \<open>
  The list before \<^verbatim>\<open>slice(0, 5)\<close>, and the statistics a group of title \<open>t\<close> should
  hold over a list of bookings: how many have that title, and the sum of their prices.
\<close>

definition ranked :: "booking list option \<Rightarrow> top_service list" where
  "ranked data =
     sort_key (\<lambda>a. - revenue a)
       (map (\<lambda>(title, stats). \<lparr>bookings = bookings stats, revenue = revenue stats, title = title\<rparr>)
          (Object_entries (serviceStats data)))"

definition group_stat :: "booking list \<Rightarrow> string \<Rightarrow> service_stat" where
  "group_stat xs t =
     \<lparr>bookings = length (filter (\<lambda>b. serviceTitle b = t) xs),
      revenue = sum_list (map total_price (filter (\<lambda>b. serviceTitle b = t) xs))\<rparr>"

section \<open>Booking lifecycle (professional bookings screen)\<close>

text \<open>
  The legal transitions, as the table of the specification lists them; the source holds
  no such table.
\<close>

definition legal_transition :: "booking_status \<Rightarrow> booking_status \<Rightarrow> bool" where
  "legal_transition current requested =
     ((current, requested) \<in> set [(Pending, Confirmed), (Pending, Cancelled),
                                  (Confirmed, Completed), (Confirmed, Cancelled)])"

datatype store_error = NotFound

text \<open>
  Modelled from the spec: the write operation of the Booking Record Store (the backend
  behind \<^verbatim>\<open>supabase.from('bookings').update({ status, updated_at }).eq('id', bookingId)\<close>,
  not under src/). It updates status and update timestamp of the row with that id and is
  rejected if the id does not exist; it does not check the transition table.
\<close>

definition store_update :: "booking list \<Rightarrow> string \<Rightarrow> booking_status \<Rightarrow> int \<Rightarrow> store_error + booking list" where
  "store_update rows bookingId s now =
     (if bookingId \<in> set (map booking_id rows)
      then Inr (map (\<lambda>b. if booking_id b = bookingId
                          then b\<lparr>status := s, updated_at := now\<rparr> else b) rows)
      else Inl NotFound)"

text \<open>
  \<^verbatim>\<open>updateBookingStatus(bookingId, status)\<close>: it issues the write at once; on an error it
  logs and leaves everything as it was, otherwise it reloads the list. The result is the
  content of the store afterwards.
\<close>

definition updateBookingStatus :: "booking list \<Rightarrow> string \<Rightarrow> booking_status \<Rightarrow> int \<Rightarrow> booking list" where
  "updateBookingStatus rows bookingId s now =
     (case store_update rows bookingId s now of
        Inl error \<Rightarrow> rows
      | Inr rows' \<Rightarrow> rows')"

text \<open>
  The buttons in the footer of a booking card. \<open>onPress\<close> is the handler of the button:
  \<open>Some (UpdateBookingStatus i s)\<close> for
  \<^verbatim>\<open>onPress={() => updateBookingStatus(item.id, s)}\<close>, \<open>None\<close> for a button without one.
\<close>

datatype press_action = UpdateBookingStatus string booking_status

record button =
  label :: string
  mode :: string
  onPress :: "press_action option"

definition professional_card_actions :: "booking \<Rightarrow> button list" where
  "professional_card_actions item =
     (if status item = Pending
      then [\<lparr>label = ''Recusar'', mode = ''outlined'',
              onPress = Some (UpdateBookingStatus (booking_id item) Cancelled)\<rparr>,
            \<lparr>label = ''Aceitar'', mode = ''contained'',
              onPress = Some (UpdateBookingStatus (booking_id item) Confirmed)\<rparr>]
      else []) @
     (if status item = Confirmed
      then [\<lparr>label = ''Finalizar'', mode = ''contained'',
              onPress = Some (UpdateBookingStatus (booking_id item) Completed)\<rparr>]
      else [])"

text \<open>Pressing a button runs its handler on the store.\<close>

definition press :: "booking list \<Rightarrow> button \<Rightarrow> int \<Rightarrow> booking list" where
  "press rows btn now =
     (case onPress btn of
        None \<Rightarrow> rows
      | Some (UpdateBookingStatus bookingId s) \<Rightarrow> updateBookingStatus rows bookingId s now)"

section \<open>Client bookings screen\<close>

text \<open>
  The footer of the client's booking card:
  \<^verbatim>\<open>{item.status === 'pending' && (<View> <Button mode="outlined">Cancelar</Button>
  <Button mode="contained">Contatar</Button> </View>)}\<close>.
\<close>

definition client_card_actions :: "booking \<Rightarrow> button list" where
  "client_card_actions item =
     (if status item = Pending
      then [\<lparr>label = ''Cancelar'', mode = ''outlined'', onPress = None\<rparr>,
            \<lparr>label = ''Contatar'', mode = ''contained'', onPress = None\<rparr>]
      else [])"

text \<open>
  The two tabs over the loaded list (the state \<^verbatim>\<open>bookings\<close>). \<^verbatim>\<open>isUpcoming(date)\<close> is \<^verbatim>\<open>new Date(date) >= new Date()\<close>, a
  comparison of time values; \<open>now\<close> is the value of \<^verbatim>\<open>new Date()\<close>.
\<close>

datatype tab = Upcoming | Past

definition isUpcoming :: "js_date \<Rightarrow> js_date \<Rightarrow> bool" where
  "isUpcoming date now = (getTime date \<ge> getTime now)"

definition shown_in_tab :: "tab \<Rightarrow> js_date \<Rightarrow> booking \<Rightarrow> bool" where
  "shown_in_tab activeTab now booking =
     (if activeTab = Upcoming
      then isUpcoming (event_date booking) now \<and> status booking \<noteq> Completed \<and>
           status booking \<noteq> Cancelled
      else \<not> isUpcoming (event_date booking) now \<or> status booking = Completed \<or>
           status booking = Cancelled)"

definition filteredBookings :: "booking list \<Rightarrow> tab \<Rightarrow> js_date \<Rightarrow> booking list" where
  "filteredBookings loaded activeTab now = filter (shown_in_tab activeTab now) loaded"

text \<open>
  The column \<^verbatim>\<open>event_date\<close> is a date without a time of day, and \<^verbatim>\<open>new Date\<close> of such a
  date is the instant 00:00 UTC of that day: the time value of an event date is a whole
  number of days. \<open>calendar_day offset d\<close> is the day, counted from 1 January 1970, on
  which the instant \<open>d\<close> falls for a clock that is \<open>offset\<close> milliseconds ahead of UTC;
  with offset 0 it gives back the day an event date names.
\<close>

definition ms_per_day :: int where
  "ms_per_day = 86400000"

definition calendar_day :: "int \<Rightarrow> js_date \<Rightarrow> int" where
  "calendar_day offset d = (getTime d + offset) div ms_per_day"

section \<open>Search filter (\<^verbatim>\<open>filterServices\<close>)\<close>

text \<open>
  Strings are lists of 8-bit code units. \<^verbatim>\<open>toLowerCase\<close> maps the letters A to Z and the
  accented capitals of that range to their small letters; \<^verbatim>\<open>trim\<close> removes white space
  at both ends; \<^verbatim>\<open>s.includes(sub)\<close> (here \<open>string_includes\<close>) holds when \<open>sub\<close> occurs in \<open>s\<close> as a contiguous
  piece.
\<close>

definition upper_case_letters :: string where
  "upper_case_letters = ''ABCDEFGHIJKLMNOPQRSTUVWXYZ'' @
     [CHR 0xC0, CHR 0xC1, CHR 0xC2, CHR 0xC3, CHR 0xC4, CHR 0xC5, CHR 0xC6, CHR 0xC7,
      CHR 0xC8, CHR 0xC9, CHR 0xCA, CHR 0xCB, CHR 0xCC, CHR 0xCD, CHR 0xCE, CHR 0xCF,
      CHR 0xD0, CHR 0xD1, CHR 0xD2, CHR 0xD3, CHR 0xD4, CHR 0xD5, CHR 0xD6,
      CHR 0xD8, CHR 0xD9, CHR 0xDA, CHR 0xDB, CHR 0xDC, CHR 0xDD, CHR 0xDE]"

definition lower_case_letters :: string where
  "lower_case_letters = ''abcdefghijklmnopqrstuvwxyz'' @
     [CHR 0xE0, CHR 0xE1, CHR 0xE2, CHR 0xE3, CHR 0xE4, CHR 0xE5, CHR 0xE6, CHR 0xE7,
      CHR 0xE8, CHR 0xE9, CHR 0xEA, CHR 0xEB, CHR 0xEC, CHR 0xED, CHR 0xEE, CHR 0xEF,
      CHR 0xF0, CHR 0xF1, CHR 0xF2, CHR 0xF3, CHR 0xF4, CHR 0xF5, CHR 0xF6,
      CHR 0xF8, CHR 0xF9, CHR 0xFA, CHR 0xFB, CHR 0xFC, CHR 0xFD, CHR 0xFE]"

definition toLowerCase :: "string \<Rightarrow> string" where
  "toLowerCase s =
     map (\<lambda>c. case map_of (zip upper_case_letters lower_case_letters) c of
                 Some l \<Rightarrow> l | None \<Rightarrow> c) s"

definition is_white_space :: "char \<Rightarrow> bool" where
  "is_white_space c =
     (c \<in> set [CHR 0x09, CHR 0x0A, CHR 0x0B, CHR 0x0C, CHR 0x0D, CHR 0x20, CHR 0xA0])"

definition trim :: "string \<Rightarrow> string" where
  "trim s = rev (dropWhile is_white_space (rev (dropWhile is_white_space s)))"

fun string_includes :: "string \<Rightarrow> string \<Rightarrow> bool" where
  "string_includes [] sub = (sub = [])"
| "string_includes (c # cs) sub = (prefix sub (c # cs) \<or> string_includes cs sub)"

text \<open>
  The text predicate. \<^verbatim>\<open>service.profiles?.full_name.toLowerCase().includes(...)\<close> is
  \<^verbatim>\<open>undefined\<close>, hence false, when there is no joined profile. The query is matched
  as typed (lower-cased but not trimmed).
\<close>

definition matches_query :: "string \<Rightarrow> Service \<Rightarrow> bool" where
  "matches_query searchQuery service =
     (string_includes (toLowerCase (Service.title service)) (toLowerCase searchQuery) \<or>
      string_includes (toLowerCase (description service)) (toLowerCase searchQuery) \<or>
      string_includes (toLowerCase (location service)) (toLowerCase searchQuery) \<or>
      (case profiles service of
         None \<Rightarrow> False
       | Some p \<Rightarrow> string_includes (toLowerCase (full_name p)) (toLowerCase searchQuery)))"

definition filterServices :: "Service list \<Rightarrow> string \<Rightarrow> string list \<Rightarrow> Service list" where
  "filterServices services searchQuery selectedFilters =
     (let filtered = services;
          filtered = (if trim searchQuery \<noteq> []
                      then filter (matches_query searchQuery) filtered else filtered);
          filtered = (if ''budget'' \<in> set selectedFilters
                      then filter (\<lambda>service. price_from service \<le> 500) filtered
                      else filtered);
          filtered = (if ''premium'' \<in> set selectedFilters
                      then filter (\<lambda>service. price_from service \<ge> 800) filtered
                      else filtered)
      in filtered)"

text \<open>
  \<^verbatim>\<open>toggleFilter\<close>: pressing a chip removes its key when selected and appends it
  otherwise.
\<close>

definition toggleFilter :: "string list \<Rightarrow> string \<Rightarrow> string list" where
  "toggleFilter prev filterKey =
     (if filterKey \<in> set prev then filter (\<lambda>f. f \<noteq> filterKey) prev else prev @ [filterKey])"

section \<open>Professional home dashboard (\<^verbatim>\<open>loadDashboardData\<close>)\<close>






section \<open>Concrete inputs\<close>


definition example_booking ::
    "string \<Rightarrow> booking_status \<Rightarrow> rat \<Rightarrow> js_date \<Rightarrow> string option \<Rightarrow> booking" where
  "example_booking i s p d t =
     \<lparr>booking_id = i, professional_id = ''p1'', event_date = d, status = s,
      total_price = p, services_title = t, created_at = 0, updated_at = 0\<rparr>"

definition example_bookings :: "booking list" where
  "example_bookings =
     [example_booking ''b1'' Completed 500
        \<lparr>getTime = 900, getFullYear = 2025, getMonth = 5\<rparr> (Some ''Churrasco Completo''),
      example_booking ''b2'' Pending 300
        \<lparr>getTime = 2000, getFullYear = 2025, getMonth = 6\<rparr> None,
      example_booking ''b3'' Completed 200
        \<lparr>getTime = 100, getFullYear = 2025, getMonth = 3\<rparr> None]"

text \<open>A single completed booking of a service that its professional titled "constructor".\<close>

definition constructor_booking :: booking where
  "constructor_booking =
     example_booking ''b9'' Completed 100
       \<lparr>getTime = 900, getFullYear = 2025, getMonth = 5\<rparr> (Some ''constructor'')"

text \<open>One booking in each of three states, with event dates around \<open>example_now\<close>.\<close>

definition requested_booking :: booking where
  "requested_booking =
     example_booking ''b2'' Pending 300
       \<lparr>getTime = 2000, getFullYear = 2025, getMonth = 6\<rparr> None"

definition agreed_booking :: booking where
  "agreed_booking =
     example_booking ''b4'' Confirmed 450
       \<lparr>getTime = 1500, getFullYear = 2025, getMonth = 5\<rparr> None"

definition done_booking :: booking where
  "done_booking =
     example_booking ''b7'' Completed 500
       \<lparr>getTime = 3000, getFullYear = 2025, getMonth = 7\<rparr> None"

text \<open>
  The three services of the specification's example, priced 400, 900 and 600, and a table
  of seven confirmed bookings of one professional, all in the current month, created at
  times 1 to 7.
\<close>

definition example_service :: "string \<Rightarrow> rat \<Rightarrow> Service" where
  "example_service i p =
     \<lparr>service_id = i, title = ''Churrasco Completo'', description = ''Carnes e acompanhamentos'',
      price_from = p, location = ''Campinas'', profiles = Some \<lparr>full_name = ''Ana Souza''\<rparr>\<rparr>"

definition example_services :: "Service list" where
  "example_services =
     [example_service ''s1'' 400, example_service ''s2'' 900, example_service ''s3'' 600]"


text \<open>
  A pending booking dated 15 June 2025 (day 20254, time value 00:00 UTC of that day), and
  the instant twelve hours later: noon of 15 June in UTC, nine in the morning in
  S\<atilde>o Paulo (three hours behind UTC).
\<close>

definition today_booking :: booking where
  "today_booking =
     example_booking ''b5'' Pending 300
       \<lparr>getTime = 1749945600000, getFullYear = 2025, getMonth = 5\<rparr> None"

definition noon_now :: js_date where
  "noon_now = \<lparr>getTime = 1749988800000, getFullYear = 2025, getMonth = 5\<rparr>"



section \<open>Auxiliary facts\<close>

subsection \<open>Totals and monthly buckets\<close>

lemma foldl_add_price:
  "foldl (\<lambda>sum b. sum + total_price b) a xs = a + sum_list (map total_price xs)"
  by (induction xs arbitrary: a) (simp_all add: add.assoc)

lemma sum_list_filter_if:
  "sum_list (map f (filter P xs)) = (\<Sum>x\<leftarrow>xs. if P x then f x else (0::rat))"
  by (induction xs) simp_all







subsection \<open>The service ranking\<close>

lemma map_of_bump:
  "map_of (map (\<lambda>(k, v). if k = key then (k, f v) else (k, v)) obj) t =
     (if t = key then map_option f (map_of obj t) else map_of obj t)"
  by (induction obj) auto

lemma map_fst_bump:
  "map fst (map (\<lambda>(k, v). if k = key then (k, f v) else (k, v)) obj) = map fst obj"
  by (induction obj) auto

lemma serviceStats_step_inherited:
  "map_of obj (serviceTitle b) = None \<Longrightarrow> serviceTitle b \<in> set Object_prototype_keys \<Longrightarrow>
   serviceStats_step obj b = obj"
  by (simp add: serviceStats_step_def get_property_def)

lemma serviceStats_step_new:
  assumes none: "map_of obj (serviceTitle b) = None"
    and own: "serviceTitle b \<notin> set Object_prototype_keys"
  shows "serviceStats_step obj b =
     obj @ [(serviceTitle b, \<lparr>bookings = 1, revenue = total_price b\<rparr>)]"
proof -
  let ?key = "serviceTitle b"
  let ?created = "obj @ [(?key, \<lparr>bookings = 0, revenue = 0\<rparr>)]"
  have undef: "get_property obj ?key = Undefined"
    using none own by (simp add: get_property_def)
  have "map_of ?created ?key = Some \<lparr>bookings = 0, revenue = 0\<rparr>"
    using none by (simp add: map_of_append map_add_def)
  then have found: "get_property ?created ?key = Own \<lparr>bookings = 0, revenue = 0\<rparr>"
    by (simp add: get_property_def)
  have notin: "?key \<notin> fst ` set obj"
    using none by (simp add: map_of_eq_None_iff)
  have same: "map (\<lambda>(k, v). if k = ?key
            then (k, v\<lparr>bookings := bookings v + 1, revenue := revenue v + total_price b\<rparr>)
            else (k, v)) obj = obj"
    using notin by (intro map_idI) force
  show ?thesis
    using undef found same by (simp add: serviceStats_step_def)
qed

lemma serviceStats_step_old:
  "map_of obj (serviceTitle b) = Some v \<Longrightarrow>
   serviceStats_step obj b =
     map (\<lambda>(k, v). if k = serviceTitle b
            then (k, v\<lparr>bookings := bookings v + 1, revenue := revenue v + total_price b\<rparr>)
            else (k, v)) obj"
  by (simp add: serviceStats_step_def get_property_def)

lemma serviceStats_fold_invariant:
  "distinct (map fst (foldl serviceStats_step [] xs)) \<and>
   (\<forall>t. map_of (foldl serviceStats_step [] xs) t =
      (if t \<in> serviceTitle ` set xs \<and> t \<notin> set Object_prototype_keys
       then Some (group_stat xs t) else None))"
proof (induction xs rule: rev_induct)
  case Nil
  then show ?case by simp
next
  case (snoc b xs)
  let ?obj = "foldl serviceStats_step [] xs"
  let ?key = "serviceTitle b"
  have d: "distinct (map fst ?obj)" and
    m: "\<And>t. map_of ?obj t =
      (if t \<in> serviceTitle ` set xs \<and> t \<notin> set Object_prototype_keys
       then Some (group_stat xs t) else None)"
    using snoc.IH by simp_all
  have fold: "foldl serviceStats_step [] (xs @ [b]) = serviceStats_step ?obj b"
    by simp
  consider (inherited) "?key \<in> set Object_prototype_keys"
    | (new) "?key \<notin> set Object_prototype_keys" "?key \<notin> serviceTitle ` set xs"
    | (old) "?key \<notin> set Object_prototype_keys" "?key \<in> serviceTitle ` set xs"
    by blast
  then show ?case
  proof cases
    case inherited
    then have none: "map_of ?obj ?key = None" by (simp add: m)
    have eq: "serviceStats_step ?obj b = ?obj"
      using none inherited by (rule serviceStats_step_inherited)
    show ?thesis
      unfolding fold eq using d m inherited by (auto simp: group_stat_def)
  next
    case new
    then have none: "map_of ?obj ?key = None" by (simp add: m)
    have eq: "serviceStats_step ?obj b =
        ?obj @ [(?key, \<lparr>bookings = 1, revenue = total_price b\<rparr>)]"
      using none new(1) by (rule serviceStats_step_new)
    have notin: "?key \<notin> fst ` set ?obj"
      using none by (simp add: map_of_eq_None_iff)
    have "filter (\<lambda>x. serviceTitle x = ?key) xs = []"
      using new(2) by (simp add: filter_empty_conv image_iff) metis
    then have gs: "group_stat (xs @ [b]) ?key = \<lparr>bookings = 1, revenue = total_price b\<rparr>"
      by (simp add: group_stat_def)
    have other: "group_stat (xs @ [b]) t = group_stat xs t" if "t \<noteq> ?key" for t
      using that by (auto simp: group_stat_def)
    show ?thesis
      unfolding fold eq using d notin new gs other none
      by (auto simp: map_of_append map_add_def m split: option.splits)
  next
    case old
    then have some: "map_of ?obj ?key = Some (group_stat xs ?key)" by (simp add: m)
    have eq: "serviceStats_step ?obj b =
        map (\<lambda>(k, v). if k = ?key
            then (k, v\<lparr>bookings := bookings v + 1, revenue := revenue v + total_price b\<rparr>)
            else (k, v)) ?obj"
      using some by (rule serviceStats_step_old)
    have gs: "group_stat (xs @ [b]) ?key =
        (group_stat xs ?key)\<lparr>bookings := bookings (group_stat xs ?key) + 1,
           revenue := revenue (group_stat xs ?key) + total_price b\<rparr>"
      by (simp add: group_stat_def)
    have other: "group_stat (xs @ [b]) t = group_stat xs t" if "t \<noteq> ?key" for t
      using that by (auto simp: group_stat_def)
    have d': "distinct (map fst (serviceStats_step ?obj b))"
      unfolding eq by (simp only: map_fst_bump d)
    have m': "map_of (serviceStats_step ?obj b) t =
      (if t \<in> serviceTitle ` set (xs @ [b]) \<and> t \<notin> set Object_prototype_keys
       then Some (group_stat (xs @ [b]) t) else None)" for t
    proof (cases "t = ?key")
      case True
      then show ?thesis
        unfolding eq map_of_bump using old gs some by simp
    next
      case False
      then show ?thesis
        unfolding eq map_of_bump using other [OF False] by (simp add: m)
    qed
    show ?thesis
      unfolding fold using d' m' by blast
  qed
qed


lemma mset_Object_entries: "mset (Object_entries obj) = mset obj"
  by (simp add: Object_entries_def)

lemma set_Object_entries: "set (Object_entries obj) = set obj"
  using mset_Object_entries [of obj] by (metis set_mset_mset)

lemma topServices_ranked: "topServices data = take 5 (ranked data)"
  by (simp add: topServices_def ranked_def)

lemma sorted_ranked: "sorted_wrt (\<lambda>a b. revenue b \<le> revenue a) (ranked data)"
proof -
  have "sorted (map (\<lambda>a. - revenue a) (ranked data))"
    unfolding ranked_def by (rule sorted_sort_key)
  then show ?thesis
    by (simp add: sorted_map) 
qed

lemma set_ranked:
  "set (ranked data) =
     (\<lambda>(k, v). \<lparr>bookings = bookings v, revenue = revenue v, title = k\<rparr>) ` set (serviceStats data)"
  by (simp add: ranked_def set_Object_entries)

lemma map_title_ranked:
  "mset (map title (ranked data)) = mset (map fst (serviceStats data))"
proof -
  have "mset (map title (ranked data)) =
      mset (map title (map (\<lambda>(title, stats).
         \<lparr>bookings = bookings stats, revenue = revenue stats, title = title\<rparr>)
          (Object_entries (serviceStats data))))"
    unfolding ranked_def by (simp only: mset_map mset_sort)
  also have "\<dots> = mset (map fst (Object_entries (serviceStats data)))"
    by (simp add: case_prod_unfold comp_def)
  also have "\<dots> = mset (map fst (serviceStats data))"
    by (simp only: mset_map mset_Object_entries)
  finally show ?thesis .
qed

lemma serviceStats_Some:
  "serviceStats (Some bs) = foldl serviceStats_step [] (filter (\<lambda>b. status b = Completed) bs)"
  by (simp add: serviceStats_def completedBookings_def)

lemma distinct_ranked: "distinct (map title (ranked data))"
proof -
  have "distinct (map fst (serviceStats data))"
    unfolding serviceStats_def using serviceStats_fold_invariant by blast
  then show ?thesis
    using map_title_ranked [of data] by (metis mset_eq_imp_distinct_iff)
qed

lemma ranked_entry:
  assumes "e \<in> set (ranked (Some bs))"
  shows "title e \<notin> set Object_prototype_keys \<and>
         title e \<in> serviceTitle ` set (filter (\<lambda>b. status b = Completed) bs) \<and>
         bookings e = length (filter (\<lambda>b. status b = Completed \<and> serviceTitle b = title e) bs) \<and>
         revenue e =
           sum_list (map total_price
             (filter (\<lambda>b. status b = Completed \<and> serviceTitle b = title e) bs))"
proof -
  let ?cs = "filter (\<lambda>b. status b = Completed) bs"
  obtain k v where kv: "(k, v) \<in> set (serviceStats (Some bs))"
    and e: "e = \<lparr>bookings = bookings v, revenue = revenue v, title = k\<rparr>"
    using assms by (auto simp: set_ranked)
  have d: "distinct (map fst (foldl serviceStats_step [] ?cs))"
    using serviceStats_fold_invariant by blast
  have "map_of (foldl serviceStats_step [] ?cs) k = Some v"
    using kv d by (simp add: serviceStats_Some)
  moreover have "map_of (foldl serviceStats_step [] ?cs) k =
      (if k \<in> serviceTitle ` set ?cs \<and> k \<notin> set Object_prototype_keys
       then Some (group_stat ?cs k) else None)"
    using serviceStats_fold_invariant by blast
  ultimately have k: "k \<in> serviceTitle ` set ?cs" "k \<notin> set Object_prototype_keys"
    and v: "v = group_stat ?cs k"
    by (auto split: if_splits)
  have f: "filter (\<lambda>b. serviceTitle b = k) ?cs =
      filter (\<lambda>b. status b = Completed \<and> serviceTitle b = k) bs"
    by (simp add: conj_commute)
  show ?thesis
    using k by (simp add: e v group_stat_def f)
qed

lemma ranked_complete:
  assumes "b \<in> set bs" "status b = Completed" "serviceTitle b \<notin> set Object_prototype_keys"
  shows "serviceTitle b \<in> title ` set (ranked (Some bs))"
proof -
  let ?cs = "filter (\<lambda>b. status b = Completed) bs"
  have "map_of (foldl serviceStats_step [] ?cs) (serviceTitle b) =
      (if serviceTitle b \<in> serviceTitle ` set ?cs \<and> serviceTitle b \<notin> set Object_prototype_keys
       then Some (group_stat ?cs (serviceTitle b)) else None)"
    using serviceStats_fold_invariant by blast
  then have "map_of (serviceStats (Some bs)) (serviceTitle b) =
      Some (group_stat ?cs (serviceTitle b))"
    using assms by (simp add: serviceStats_Some)
  then have "(serviceTitle b, group_stat ?cs (serviceTitle b)) \<in> set (serviceStats (Some bs))"
    by (rule map_of_SomeD)
  then have "\<lparr>bookings = bookings (group_stat ?cs (serviceTitle b)),
        revenue = revenue (group_stat ?cs (serviceTitle b)), title = serviceTitle b\<rparr>
      \<in> set (ranked (Some bs))"
    unfolding set_ranked by force
  then show ?thesis by force
qed

lemma take_sorted_top:
  assumes "sorted_wrt (\<lambda>a b. revenue b \<le> revenue a) xs"
    and "a \<in> set (take n xs)" and "b \<in> set (drop n xs)"
  shows "revenue b \<le> revenue a"
proof -
  have "sorted_wrt (\<lambda>a b. revenue b \<le> revenue a) (take n xs @ drop n xs)"
    using assms(1) by simp
  then show ?thesis
    using assms(2,3) unfolding sorted_wrt_append by blast
qed

text \<open>
  What holds of the ranking on every input: at most five entries, non-increasing revenue,
  one entry per title, and each entry carries the count and the sum of the completed
  bookings of its title. A title that names an inherited property never gets an entry.
\<close>

lemma topServices_entries:
  "length (topServices data) \<le> 5"
  "sorted_wrt (\<lambda>a b. revenue b \<le> revenue a) (topServices data)"
  "distinct (map title (topServices data))"
  "e \<in> set (topServices (Some bs)) \<Longrightarrow>
     title e \<notin> set Object_prototype_keys \<and>
     title e \<in> serviceTitle ` set (filter (\<lambda>b. status b = Completed) bs) \<and>
     bookings e = length (filter (\<lambda>b. status b = Completed \<and> serviceTitle b = title e) bs) \<and>
     revenue e =
       sum_list (map total_price
         (filter (\<lambda>b. status b = Completed \<and> serviceTitle b = title e) bs))"
proof -
  show "length (topServices data) \<le> 5"
    by (simp add: topServices_ranked)
  show "sorted_wrt (\<lambda>a b. revenue b \<le> revenue a) (topServices data)"
    unfolding topServices_ranked using sorted_ranked by (rule sorted_wrt_take)
  show "distinct (map title (topServices data))"
    unfolding topServices_ranked take_map [symmetric] using distinct_ranked
    by (rule distinct_take)
  show "title e \<notin> set Object_prototype_keys \<and>
     title e \<in> serviceTitle ` set (filter (\<lambda>b. status b = Completed) bs) \<and>
     bookings e = length (filter (\<lambda>b. status b = Completed \<and> serviceTitle b = title e) bs) \<and>
     revenue e =
       sum_list (map total_price
         (filter (\<lambda>b. status b = Completed \<and> serviceTitle b = title e) bs))"
    if "e \<in> set (topServices (Some bs))"
  proof -
    from that have "e \<in> set (ranked (Some bs))"
      unfolding topServices_ranked by (rule in_set_takeD)
    then show ?thesis by (rule ranked_entry)
  qed
qed

lemma topServices_complete:
  assumes "b \<in> set bs" "status b = Completed" "serviceTitle b \<notin> set Object_prototype_keys"
  shows "serviceTitle b \<in> title ` set (topServices (Some bs)) \<or>
         (length (topServices (Some bs)) = 5 \<and>
          (\<forall>e \<in> set (topServices (Some bs)).
             sum_list (map total_price
               (filter (\<lambda>c. status c = Completed \<and> serviceTitle c = serviceTitle b) bs))
             \<le> revenue e))"
proof -
  obtain g where g: "g \<in> set (ranked (Some bs))" "title g = serviceTitle b"
    using ranked_complete [OF assms] by auto
  have rev: "revenue g = sum_list (map total_price
               (filter (\<lambda>c. status c = Completed \<and> serviceTitle c = serviceTitle b) bs))"
    using ranked_entry [OF g(1)] g(2) by simp
  have "g \<in> set (take 5 (ranked (Some bs))) \<or> g \<in> set (drop 5 (ranked (Some bs)))"
    using g(1) by (metis Un_iff append_take_drop_id set_append)
  then show ?thesis
  proof
    assume "g \<in> set (take 5 (ranked (Some bs)))"
    then show ?thesis
      using g(2) unfolding topServices_ranked by force
  next
    assume d: "g \<in> set (drop 5 (ranked (Some bs)))"
    then have "drop 5 (ranked (Some bs)) \<noteq> []" by auto
    then have len: "length (topServices (Some bs)) = 5"
      unfolding topServices_ranked by simp
    have "revenue g \<le> revenue e" if "e \<in> set (topServices (Some bs))" for e
      using take_sorted_top [OF sorted_ranked _ d] that
      unfolding topServices_ranked by blast
    then show ?thesis
      using len rev by simp
  qed
qed

subsection \<open>Status updates\<close>

lemma updateBookingStatus_known:
  "bookingId \<in> set (map booking_id rows) \<Longrightarrow>
   updateBookingStatus rows bookingId s now =
     map (\<lambda>b. if booking_id b = bookingId then b\<lparr>status := s, updated_at := now\<rparr> else b) rows"
  by (simp add: updateBookingStatus_def store_update_def)

lemma updateBookingStatus_unknown:
  "bookingId \<notin> set (map booking_id rows) \<Longrightarrow> updateBookingStatus rows bookingId s now = rows"
  by (simp add: updateBookingStatus_def store_update_def)

lemma professional_card_actions_legal:
  "btn \<in> set (professional_card_actions item) \<Longrightarrow>
   \<exists>s. onPress btn = Some (UpdateBookingStatus (booking_id item) s) \<and>
       legal_transition (status item) s"
  by (cases "status item")
     (auto simp: professional_card_actions_def legal_transition_def)

subsection \<open>The search filter\<close>

lemma trim_empty_iff: "trim q = [] \<longleftrightarrow> (\<forall>c \<in> set q. is_white_space c)"
proof
  assume "trim q = []"
  then have all: "\<forall>c \<in> set (dropWhile is_white_space q). is_white_space c"
    by (simp add: trim_def)
  have "dropWhile is_white_space q = []"
  proof (rule ccontr)
    assume ne: "dropWhile is_white_space q \<noteq> []"
    then have "\<not> is_white_space (hd (dropWhile is_white_space q))"
      by (rule hd_dropWhile)
    moreover have "hd (dropWhile is_white_space q) \<in> set (dropWhile is_white_space q)"
      using ne by (rule hd_in_set)
    ultimately show False using all by blast
  qed
  then show "\<forall>c \<in> set q. is_white_space c"
    by simp
next
  assume "\<forall>c \<in> set q. is_white_space c"
  then have d: "dropWhile is_white_space q = []"
    by simp
  show "trim q = []"
    unfolding trim_def d by simp
qed

lemma filterServices_filter:
  "filterServices services q sel =
     filter (\<lambda>s. (trim q \<noteq> [] \<longrightarrow> matches_query q s) \<and>
                 (''budget'' \<in> set sel \<longrightarrow> price_from s \<le> 500) \<and>
                 (''premium'' \<in> set sel \<longrightarrow> 800 \<le> price_from s)) services"
  by (simp add: filterServices_def conj_commute conj_left_commute)

lemma string_includes_sublist: "string_includes s sub \<longleftrightarrow> sublist sub s"
  by (induction s) (auto simp: sublist_Cons_right)

subsection \<open>The dashboard query\<close>






subsection \<open>The tabs of the client's bookings\<close>

text \<open>
  The tab of a booking, by instants: upcoming exactly when the time value of its event
  date is not below that of the current instant and its status is neither completed nor
  cancelled; history otherwise.
\<close>

lemma filteredBookings_by_instant:
  "(b \<in> set (filteredBookings bs Upcoming now) \<longleftrightarrow>
      b \<in> set bs \<and> \<not> getTime (event_date b) < getTime now \<and>
      status b \<noteq> Completed \<and> status b \<noteq> Cancelled)
   \<and> (b \<in> set (filteredBookings bs Past now) \<longleftrightarrow>
      b \<in> set bs \<and> b \<notin> set (filteredBookings bs Upcoming now))
   \<and> (b \<in> set bs \<and> (status b = Completed \<or> status b = Cancelled) \<longrightarrow>
      b \<in> set (filteredBookings bs Past now) \<and> b \<notin> set (filteredBookings bs Upcoming now))
   \<and> (b \<in> set bs \<and> (status b = Pending \<or> status b = Confirmed) \<longrightarrow>
      (b \<in> set (filteredBookings bs Upcoming now) \<longleftrightarrow> getTime now \<le> getTime (event_date b)) \<and>
      (b \<in> set (filteredBookings bs Past now) \<longleftrightarrow> getTime (event_date b) < getTime now))"
  by (cases "status b")
     (auto simp: filteredBookings_def shown_in_tab_def isUpcoming_def)

text \<open>
  For an event date, which is 00:00 UTC of its day \<open>k\<close>, the comparison holds only while
  the current instant has not passed the start of that day.
\<close>

lemma isUpcoming_date_only:
  assumes "getTime d = k * ms_per_day"
  shows "isUpcoming d now \<longleftrightarrow>
           calendar_day 0 now < k \<or> (calendar_day 0 now = k \<and> getTime now mod ms_per_day = 0)"
proof -
  let ?t = "getTime now"
  have split: "?t = (?t div 86400000) * 86400000 + ?t mod 86400000"
    by simp
  have r: "0 \<le> ?t mod 86400000" "?t mod 86400000 < 86400000"
    by simp_all
  have "?t \<le> k * 86400000 \<longleftrightarrow>
      ?t div 86400000 < k \<or> (?t div 86400000 = k \<and> ?t mod 86400000 = 0)"
  proof (cases "?t div 86400000 < k")
    case True
    then have "?t div 86400000 + 1 \<le> k" by simp
    then have "(?t div 86400000 + 1) * 86400000 \<le> k * 86400000"
      by (rule mult_right_mono) simp
    then show ?thesis using True split r by linarith
  next
    case False
    then have "k \<le> ?t div 86400000" by simp
    then have "k * 86400000 \<le> (?t div 86400000) * 86400000"
      by (rule mult_right_mono) simp
    then show ?thesis using False split r by linarith
  qed
  then show ?thesis
    using assms by (simp add: isUpcoming_def calendar_day_def ms_per_day_def)
qed

section \<open>Claims\<close>

text \<open>
  C1, as the code has it. \<open>updateBookingStatus\<close> does not look at the current status and
  holds no transition table: whenever the store knows the id, the requested status and the
  new timestamp are written, whatever the current status is; an unknown id changes
  nothing. What keeps requests legal is the professional's screen: every button it
  renders for a booking requests a transition that the table allows from the status
  shown (to cancelled or confirmed for a pending booking, to completed for a confirmed
  one), and a cancelled or completed booking gets no button. So pressing a rendered
  button writes a legal transition of the status shown.
\<close>

theorem updateBookingStatus_writes_unchecked:
  "(bookingId \<in> set (map booking_id rows) \<longrightarrow>
      updateBookingStatus rows bookingId s now =
        map (\<lambda>b. if booking_id b = bookingId then b\<lparr>status := s, updated_at := now\<rparr> else b) rows)
   \<and> (bookingId \<notin> set (map booking_id rows) \<longrightarrow>
      updateBookingStatus rows bookingId s now = rows)
   \<and> (\<forall>btn \<in> set (professional_card_actions item).
        \<exists>t. onPress btn = Some (UpdateBookingStatus (booking_id item) t) \<and>
            legal_transition (status item) t)
   \<and> (status item = Cancelled \<or> status item = Completed \<longrightarrow>
        professional_card_actions item = [])
   \<and> map onPress (professional_card_actions item) =
        (case status item of
           Pending \<Rightarrow> [Some (UpdateBookingStatus (booking_id item) Cancelled),
                       Some (UpdateBookingStatus (booking_id item) Confirmed)]
         | Confirmed \<Rightarrow> [Some (UpdateBookingStatus (booking_id item) Completed)]
         | Cancelled \<Rightarrow> []
         | Completed \<Rightarrow> [])
   \<and> (item \<in> set rows \<and> btn \<in> set (professional_card_actions item) \<longrightarrow>
        (\<exists>t. legal_transition (status item) t \<and>
             press rows btn now =
               map (\<lambda>b. if booking_id b = booking_id item
                         then b\<lparr>status := t, updated_at := now\<rparr> else b) rows))"
proof -
  have pressed: "\<exists>t. legal_transition (status item) t \<and>
             press rows btn now =
               map (\<lambda>b. if booking_id b = booking_id item
                         then b\<lparr>status := t, updated_at := now\<rparr> else b) rows"
    if shown: "item \<in> set rows" and rendered: "btn \<in> set (professional_card_actions item)"
  proof -
    obtain t where t: "onPress btn = Some (UpdateBookingStatus (booking_id item) t)"
        "legal_transition (status item) t"
      using professional_card_actions_legal [OF rendered] by blast
    have "booking_id item \<in> set (map booking_id rows)"
      using shown by simp
    then have "press rows btn now =
        map (\<lambda>b. if booking_id b = booking_id item
                  then b\<lparr>status := t, updated_at := now\<rparr> else b) rows"
      using t(1) by (simp add: press_def updateBookingStatus_known)
    then show ?thesis using t(2) by blast
  qed
  have none: "professional_card_actions item = []"
    if "status item = Cancelled \<or> status item = Completed"
    using that by (auto simp: professional_card_actions_def)
  have rendered: "map onPress (professional_card_actions item) =
        (case status item of
           Pending \<Rightarrow> [Some (UpdateBookingStatus (booking_id item) Cancelled),
                       Some (UpdateBookingStatus (booking_id item) Confirmed)]
         | Confirmed \<Rightarrow> [Some (UpdateBookingStatus (booking_id item) Completed)]
         | Cancelled \<Rightarrow> []
         | Completed \<Rightarrow> [])"
    by (cases "status item") (simp_all add: professional_card_actions_def)
  show ?thesis
    using updateBookingStatus_known [of bookingId rows s now]
      updateBookingStatus_unknown [of bookingId rows s now]
      professional_card_actions_legal [of _ item] pressed none rendered
    by blast
qed

theorem updateBookingStatus_writes_unchecked_witness:
  "map status (updateBookingStatus [requested_booking, done_booking] ''b2'' Confirmed 5000)
     = [Confirmed, Completed]
   \<and> updateBookingStatus [requested_booking, done_booking] ''b5'' Confirmed 5000
     = [requested_booking, done_booking]
   \<and> professional_card_actions done_booking = []
   \<and> map onPress (professional_card_actions requested_booking)
     = [Some (UpdateBookingStatus ''b2'' Cancelled), Some (UpdateBookingStatus ''b2'' Confirmed)]
   \<and> map onPress (professional_card_actions agreed_booking)
     = [Some (UpdateBookingStatus ''b4'' Completed)]"
  using updateBookingStatus_writes_unchecked
    [of "''b2''" "[requested_booking, done_booking]" Confirmed 5000 done_booking]
    updateBookingStatus_writes_unchecked
    [of "''b5''" "[requested_booking, done_booking]" Confirmed 5000 requested_booking]
    updateBookingStatus_writes_unchecked
    [of "''b5''" "[requested_booking, done_booking]" Confirmed 5000 agreed_booking]
  by (simp add: requested_booking_def agreed_booking_def done_booking_def example_booking_def)

text \<open>
  The claim as stated fails: the transition completed to confirmed is not in the table,
  yet the update is written and the stored status becomes confirmed.
\<close>

theorem updateBookingStatus_unchecked_counterexample:
  "status done_booking = Completed
   \<and> \<not> legal_transition (status done_booking) Confirmed
   \<and> updateBookingStatus [done_booking] (booking_id done_booking) Confirmed 5000 \<noteq> [done_booking]
   \<and> map status (updateBookingStatus [done_booking] (booking_id done_booking) Confirmed 5000)
       = [Confirmed]"
  by (simp add: done_booking_def example_booking_def legal_transition_def
      updateBookingStatus_def store_update_def)

text \<open>
  C2, as the code has it. The client's booking card renders action buttons (Cancelar,
  Contatar) exactly for a booking with status pending; for a confirmed booking, as for a
  cancelled or completed one, it renders none, so the screen gives the client no action
  on a confirmed booking.
\<close>

theorem client_card_actions_pending_only:
  "map label (client_card_actions item) =
     (if status item = Pending then [''Cancelar'', ''Contatar''] else [])
   \<and> (client_card_actions item \<noteq> [] \<longleftrightarrow> status item = Pending)
   \<and> (status item = Confirmed \<longrightarrow> client_card_actions item = [])"
  by (simp add: client_card_actions_def)

theorem client_card_actions_pending_only_witness:
  "map label (client_card_actions requested_booking) = [''Cancelar'', ''Contatar'']
   \<and> client_card_actions done_booking = []"
  using client_card_actions_pending_only [of requested_booking]
    client_card_actions_pending_only [of done_booking]
  by (simp add: requested_booking_def done_booking_def example_booking_def)

text \<open>
  The claim as stated fails for a confirmed booking: its card has no button at all, so
  there is no action to cancel it.
\<close>

theorem client_card_actions_counterexample:
  "status agreed_booking = Confirmed \<and> client_card_actions agreed_booking = []"
  by (simp add: agreed_booking_def example_booking_def client_card_actions_def)

text \<open>
  C3. For every list of booking records, \<open>totalRevenue\<close> is the sum of \<open>total_price\<close>
  over exactly the records whose status is completed; a record with any other status
  contributes 0.
\<close>

theorem totalRevenue_completed_only:
  "totalRevenue (Some bs) = sum_list (map total_price (filter (\<lambda>b. status b = Completed) bs))
   \<and> totalRevenue (Some bs) = (\<Sum>b\<leftarrow>bs. if status b = Completed then total_price b else 0)"
  by (simp add: totalRevenue_def completedBookings_def foldl_add_price sum_list_filter_if)

theorem totalRevenue_completed_only_witness:
  "totalRevenue (Some example_bookings) = 700"
  using totalRevenue_completed_only [of example_bookings]
  by (simp add: example_bookings_def example_booking_def)

text \<open>
  C4. For every list of booking records, \<open>completionRate\<close> is
  completedCount / totalBookings * 100 when the list is non-empty and 0 when it is empty
  (the division is not evaluated there), and it always lies between 0 and 100.
\<close>

theorem completionRate_value_and_range:
  "completionRate (Some bs) =
     (if bs = [] then 0
      else of_nat (length (filter (\<lambda>b. status b = Completed) bs)) / of_nat (length bs) * 100)
   \<and> completionRate (Some []) = 0
   \<and> 0 \<le> completionRate (Some bs) \<and> completionRate (Some bs) \<le> 100"
proof -
  let ?c = "length (filter (\<lambda>b. status b = Completed) bs)"
  have v: "completionRate (Some bs) =
      (if bs = [] then 0 else of_nat ?c / of_nat (length bs) * 100)"
    by (simp add: completionRate_def totalBookings_def completedBookings_def)
  have e: "completionRate (Some []) = 0"
    by (simp add: completionRate_def totalBookings_def)
  have le: "(of_nat ?c :: rat) \<le> of_nat (length bs)"
    by (simp only: of_nat_le_iff length_filter_le)
  have range: "0 \<le> completionRate (Some bs) \<and> completionRate (Some bs) \<le> 100"
  proof (cases "bs = []")
    case True
    then show ?thesis using e by simp
  next
    case False
    then have pos: "(0::rat) < of_nat (length bs)" by simp
    have "(of_nat ?c :: rat) / of_nat (length bs) \<le> 1"
      using le pos by (simp add: divide_le_eq_1)
    then have hi: "(of_nat ?c :: rat) / of_nat (length bs) * 100 \<le> 1 * 100"
      by (rule mult_right_mono) simp
    have lo: "(0::rat) \<le> of_nat ?c / of_nat (length bs) * 100"
      by simp
    have "completionRate (Some bs) = of_nat ?c / of_nat (length bs) * 100"
      using False v by simp
    then show ?thesis
      using hi lo by simp
  qed
  show ?thesis using v e range by simp
qed

theorem completionRate_value_and_range_witness:
  "completionRate (Some example_bookings) = 200 / 3"
  using completionRate_value_and_range [of example_bookings]
  by (simp add: example_bookings_def example_booking_def)



text \<open>
  C6. \<open>topServices\<close> should group the completed bookings by service title, each group
  with the count and the revenue of its bookings. The dictionary is the object literal
  \<^verbatim>\<open>{}\<close>, which inherits \<^verbatim>\<open>constructor\<close> (and eleven more names) from
  \<^verbatim>\<open>Object.prototype\<close>: for a completed booking titled "constructor" the test
  \<^verbatim>\<open>!serviceStats[serviceTitle]\<close> is false, no own entry is made, and the ranking is
  empty although the booking counts in \<open>totalBookings\<close> and \<open>totalRevenue\<close>.
\<close>

theorem topServices_loses_inherited_title:
  "status constructor_booking = Completed
   \<and> serviceTitle constructor_booking = ''constructor''
   \<and> totalBookings (Some [constructor_booking]) = 1
   \<and> totalRevenue (Some [constructor_booking]) = 100
   \<and> serviceStats (Some [constructor_booking]) = []
   \<and> topServices (Some [constructor_booking]) = []"
  by (simp add: constructor_booking_def example_booking_def serviceTitle_def
      totalBookings_def totalRevenue_def completedBookings_def serviceStats_def
      serviceStats_step_def get_property_def Object_prototype_keys_def
      topServices_def Object_entries_def)

text \<open>
  C7. By the claim, a booking is upcoming exactly when its event date is not before the
  current date and its status is neither completed nor cancelled. The code compares
  \<^verbatim>\<open>new Date(date) >= new Date()\<close>, the start of the event day against the current
  instant: a pending booking dated today is listed under history, and not under upcoming,
  as soon as the day has begun. Here the booking is dated 15 June 2025 and it is noon of
  that day (the same calendar day in UTC and in S\<atilde>o Paulo).
\<close>

theorem filteredBookings_today_is_history:
  "status today_booking = Pending
   \<and> calendar_day 0 (event_date today_booking) = 20254
   \<and> calendar_day 0 noon_now = 20254
   \<and> calendar_day (- 10800000) noon_now = 20254
   \<and> getTime (event_date today_booking) < getTime noon_now
   \<and> filteredBookings [today_booking] Upcoming noon_now = []
   \<and> filteredBookings [today_booking] Past noon_now = [today_booking]"
  by (simp add: today_booking_def noon_now_def example_booking_def calendar_day_def
      ms_per_day_def filteredBookings_def shown_in_tab_def isUpcoming_def)

text \<open>
  C8. For every service list, text query and selection of toggles, the filter applies the
  text predicate first (skipped for an empty or blank query) and then each selected toggle
  as a further narrowing: with budget selected the result is exactly the services that
  survive the text predicate and have \<open>price_from \<le> 500\<close>, with premium exactly those
  with \<open>price_from \<ge> 800\<close>, with both exactly those satisfying both; other keys
  (nearby, available) narrow nothing. For prices 400, 900 and 600 and an empty query,
  budget yields the first service, premium the second, both together none.
\<close>

theorem filterServices_narrowing:
  "filterServices services q sel =
     filter (\<lambda>s. (''budget'' \<in> set sel \<longrightarrow> price_from s \<le> 500) \<and>
                 (''premium'' \<in> set sel \<longrightarrow> 800 \<le> price_from s))
       (if trim q \<noteq> [] then filter (matches_query q) services else services)
   \<and> filterServices services q [] =
       (if trim q \<noteq> [] then filter (matches_query q) services else services)
   \<and> (''budget'' \<in> set sel \<and> ''premium'' \<notin> set sel \<longrightarrow>
        filterServices services q sel =
          filter (\<lambda>s. price_from s \<le> 500) (filterServices services q []))
   \<and> (''premium'' \<in> set sel \<and> ''budget'' \<notin> set sel \<longrightarrow>
        filterServices services q sel =
          filter (\<lambda>s. 800 \<le> price_from s) (filterServices services q []))
   \<and> (''budget'' \<in> set sel \<and> ''premium'' \<in> set sel \<longrightarrow>
        filterServices services q sel =
          filter (\<lambda>s. price_from s \<le> 500 \<and> 800 \<le> price_from s) (filterServices services q []))
   \<and> (trim q = [] \<and> price_from a = 400 \<and> price_from b = 900 \<and> price_from c = 600 \<longrightarrow>
        filterServices [a, b, c] q [''budget''] = [a] \<and>
        filterServices [a, b, c] q [''premium''] = [b] \<and>
        filterServices [a, b, c] q [''budget'', ''premium''] = [])"
proof -
  have gen: "filterServices services q sel =
     filter (\<lambda>s. (''budget'' \<in> set sel \<longrightarrow> price_from s \<le> 500) \<and>
                 (''premium'' \<in> set sel \<longrightarrow> 800 \<le> price_from s))
       (if trim q \<noteq> [] then filter (matches_query q) services else services)"
    by (simp add: filterServices_def conj_commute)
  have none: "filterServices services q [] =
       (if trim q \<noteq> [] then filter (matches_query q) services else services)"
    by (simp add: filterServices_def)
  have budget: "filterServices services q sel =
          filter (\<lambda>s. price_from s \<le> 500) (filterServices services q [])"
    if "''budget'' \<in> set sel \<and> ''premium'' \<notin> set sel"
    using that by (simp add: filterServices_def)
  have premium: "filterServices services q sel =
          filter (\<lambda>s. 800 \<le> price_from s) (filterServices services q [])"
    if "''premium'' \<in> set sel \<and> ''budget'' \<notin> set sel"
    using that by (simp add: filterServices_def)
  have both: "filterServices services q sel =
          filter (\<lambda>s. price_from s \<le> 500 \<and> 800 \<le> price_from s) (filterServices services q [])"
    if "''budget'' \<in> set sel \<and> ''premium'' \<in> set sel"
    using that by (simp add: filterServices_def conj_commute)
  have example: "filterServices [a, b, c] q [''budget''] = [a] \<and>
        filterServices [a, b, c] q [''premium''] = [b] \<and>
        filterServices [a, b, c] q [''budget'', ''premium''] = []"
    if "trim q = [] \<and> price_from a = 400 \<and> price_from b = 900 \<and> price_from c = 600"
    using that by (simp add: filterServices_def)
  show ?thesis
    using gen none budget premium both example by blast
qed

theorem filterServices_narrowing_witness:
  "filterServices example_services '''' [''budget''] = [example_service ''s1'' 400]
   \<and> filterServices example_services '''' [''premium''] = [example_service ''s2'' 900]
   \<and> filterServices example_services '''' [''budget'', ''premium''] = []"
  using filterServices_narrowing
    [of example_services "''''" "[''budget'']" "example_service ''s1'' 400"
        "example_service ''s2'' 900" "example_service ''s3'' 600"]
  by (simp add: example_services_def example_service_def trim_def)

text \<open>
  C9. The filter is idempotent and keeps the order: filtering its own output again with
  the same query and toggles changes nothing, a toggle key listed twice acts as once;
  with an empty or white-space-only query and no toggle the input list comes back
  unchanged; and every output is a subsequence of the input.
\<close>

theorem filterServices_idempotent_order:
  "filterServices (filterServices services q sel) q sel = filterServices services q sel
   \<and> filterServices services q (k # k # sel) = filterServices services q (k # sel)
   \<and> (trim q = [] \<longrightarrow> filterServices services q [] = services)
   \<and> ((\<forall>c \<in> set q. is_white_space c) \<longrightarrow> filterServices services q [] = services)
   \<and> subseq (filterServices services q sel) services"
proof -
  have idem: "filterServices (filterServices services q sel) q sel = filterServices services q sel"
    unfolding filterServices_filter by (simp cong: conj_cong)
  have twice: "filterServices services q (k # k # sel) = filterServices services q (k # sel)"
    unfolding filterServices_filter by simp
  have empty: "filterServices services q [] = services" if "trim q = []"
    using that by (simp add: filterServices_def)
  have blank: "filterServices services q [] = services" if "\<forall>c \<in> set q. is_white_space c"
    using that empty by (simp add: trim_empty_iff)
  have sub: "subseq (filterServices services q sel) services"
    unfolding filterServices_filter by (rule subseq_filter_left)
  show ?thesis
    using idem twice empty blank sub by blast
qed

theorem filterServices_idempotent_order_witness:
  "filterServices example_services ''  '' [] = example_services
   \<and> filterServices (filterServices example_services '''' [''premium'']) '''' [''premium'']
       = [example_service ''s2'' 900]"
  using filterServices_idempotent_order [of example_services "''  ''" "[]" "''premium''"]
    filterServices_idempotent_order [of example_services "''''" "[''premium'']" "''premium''"]
  by (simp add: example_services_def example_service_def trim_def is_white_space_def
      filterServices_def)



end
